theory Spec2Isabelle
  imports Main
begin

section \<open>Python strings\<close>

text \<open>
  Strings are character lists. \<open>lower_char\<close> is \<open>str.lower()\<close> on one ASCII character,
  \<open>startswith\<close> is \<open>s.startswith(p)\<close> and \<open>str_in sub s\<close> is the substring test
  \<open>sub in s\<close>.
\<close>

definition lower_char :: "char \<Rightarrow> char" where
  "lower_char c =
     (case map_of (zip ''ABCDEFGHIJKLMNOPQRSTUVWXYZ'' ''abcdefghijklmnopqrstuvwxyz'') c of
        Some d \<Rightarrow> d
      | None \<Rightarrow> c)"

definition lower :: "string \<Rightarrow> string" where
  "lower s = map lower_char s"

fun startswith :: "string \<Rightarrow> string \<Rightarrow> bool" where
  "startswith s [] = True"
| "startswith [] (p # ps) = False"
| "startswith (c # cs) (p # ps) = (c = p \<and> startswith cs ps)"

fun str_in :: "string \<Rightarrow> string \<Rightarrow> bool" where
  "str_in sub [] = (sub = [])"
| "str_in sub (c # cs) = (startswith (c # cs) sub \<or> str_in sub cs)"

text \<open>\<open>s.replace("0x", "")\<close>: every non-overlapping occurrence, scanning from the left.\<close>

fun replace_0x :: "string \<Rightarrow> string" where
  "replace_0x (a # b # rest) =
     (if a = CHR ''0'' \<and> b = CHR ''x'' then replace_0x rest else a # replace_0x (b # rest))"
| "replace_0x s = s"

text \<open>\<open>s.split("/")[0]\<close>: the text before the first slash.\<close>

definition split_slash_first :: "string \<Rightarrow> string" where
  "split_slash_first s = takeWhile (\<lambda>c. c \<noteq> CHR ''/'') s"

abbreviation apostrophe :: string where
  "apostrophe \<equiv> [CHR 0x27]"

section \<open>Exceptions, logging, JSON values\<close>

datatype exn_kind =
    ValueError
  | TypeError
  | ProviderError
  | APINotImplementedError
  | ConnectionError
  | GethNotInstalledError
  | ExtraDataLengthError
  | HTTPError
  | OtherError

type_synonym exn = "exn_kind \<times> string"

datatype log_level = INFO | WARNING | ERROR

type_synonym log_entry = "log_level \<times> string"

datatype json =
    JNull
  | JBool bool
  | JNum int
  | JStr string
  | JArr "json list"
  | JObj "(string \<times> json) list"

text \<open>Python truthiness of a decoded JSON value (\<open>if not result\<close>).\<close>

fun falsy :: "json \<Rightarrow> bool" where
  "falsy JNull = True"
| "falsy (JBool b) = (\<not> b)"
| "falsy (JNum n) = (n = 0)"
| "falsy (JStr s) = (s = [])"
| "falsy (JArr xs) = (xs = [])"
| "falsy (JObj kvs) = (kvs = [])"

type_synonym request = "string \<times> json list"

section \<open>The provider object\<close>

text \<open>
  What the node at the other end reports: whether it answers (\<open>is_connected\<close>), its
  version string, the reply to the chain-id query, the latest block, and what a request
  for an endpoint with its parameters returns or raises.
\<close>

record block =
  has_poa_data :: bool
  extra_data_len :: nat
  number :: "int option"

datatype chain_id_reply =
    ChainId nat
  | ValueErrorDict "string option"
  | ValueErrorPlain
  | ChainIdRaises exn

record node =
  alive :: bool
  version :: string
  chain_id_reply :: chain_id_reply
  latest_block :: "exn + block"
  rpc :: "string \<Rightarrow> json list \<Rightarrow> exn + json"

record web3 =
  target :: node
  poa_middleware :: bool

text \<open>
  The fields of \<open>BaseGethProvider\<close> that the modelled methods read or write
  (\<open>p_web3\<close> is \<open>_web3\<close>, \<open>p_client_version\<close> is \<open>_client_version\<close>), the messages
  sent to the logger, and the requests made through \<open>_make_request\<close>, each in order.
\<close>

record provider =
  p_web3 :: "web3 option"
  p_client_version :: "string option"
  block_page_size :: nat
  concurrency :: nat
  logged :: "log_entry list"
  requests :: "request list"

text \<open>A provider as the class attributes leave it: no connection, the values for geth.\<close>

definition new_provider :: provider where
  "new_provider =
     \<lparr>p_web3 = None, p_client_version = None, block_page_size = 5000, concurrency = 16,
      logged = [], requests = []\<rparr>"

definition logger :: "log_level \<Rightarrow> string \<Rightarrow> provider \<Rightarrow> provider" where
  "logger lvl msg p = p\<lparr>logged := logged p @ [(lvl, msg)]\<rparr>"

text \<open>
  Modelled from the spec: the \<open>client_version\<close> property of the base provider class,
  which is not under src/. It is the client's self-reported version string, fetched from
  the node once per connection and kept in \<open>_client_version\<close> until that field is
  cleared. Without a connection there is no node to ask: the model answers the empty
  string there and caches nothing.
\<close>

definition client_version :: "provider \<Rightarrow> string \<times> provider" where
  "client_version p =
     (case p_client_version p of
        Some v \<Rightarrow> (v, p)
      | None \<Rightarrow>
          (case p_web3 p of
             None \<Rightarrow> ([], p)
           | Some w \<Rightarrow> (version (target w), p\<lparr>p_client_version := Some (version (target w))\<rparr>)))"

definition is_connected :: "provider \<Rightarrow> bool" where
  "is_connected p = (case p_web3 p of None \<Rightarrow> False | Some w \<Rightarrow> alive (target w))"

text \<open>\<open>_set_web3\<close>: \<open>nd\<close> is the node that \<open>_create_web3\<close> reaches at the provider's URI.\<close>

definition set_web3 :: "node \<Rightarrow> provider \<Rightarrow> provider" where
  "set_web3 nd p =
     p\<lparr>p_client_version := None, p_web3 := Some \<lparr>target = nd, poa_middleware = False\<rparr>\<rparr>"

text \<open>
  What surrounds one connection attempt: the URI as \<open>_clean_uri\<close> prints it, the IPC
  path as the log message shows it when that file exists (\<open>None\<close> when it does not),
  and \<open>network.verify_chain_id\<close>, which returns the exception it raises, if any.
\<close>

record conn_env =
  clean_uri :: string
  ipc_shown :: "string option"
  verify_chain_id :: "nat \<Rightarrow> exn option"

definition log_connection :: "conn_env \<Rightarrow> string \<Rightarrow> provider \<Rightarrow> provider" where
  "log_connection ce client_name p =
     (let msg = ''Connecting to existing '' @ client_name @ '' node at '';
          suffix = (case ipc_shown ce of Some shown \<Rightarrow> shown | None \<Rightarrow> clean_uri ce)
      in logger INFO (msg @ '' '' @ suffix @ ''.'') p)"

text \<open>
  The first part of \<open>_complete_connect\<close>: the \<open>if\<close>/\<open>elif\<close> chain on the lowered version
  string. The source reads the \<open>client_version\<close> property in every test; each read after
  the first returns the string the first one returned, so the model reads it once.
\<close>

definition classify_client :: "conn_env \<Rightarrow> provider \<Rightarrow> provider" where
  "classify_client ce p0 =
     (let (v, p) = client_version p0 in
      if str_in ''geth'' (lower v) then log_connection ce ''Geth'' p
      else if str_in ''erigon'' (lower v) then
        (log_connection ce ''Erigon'' p)\<lparr>concurrency := 8, block_page_size := 40000\<rparr>
      else if str_in ''nethermind'' (lower v) then
        (log_connection ce ''Nethermind'' p)\<lparr>concurrency := 32, block_page_size := 50000\<rparr>
      else
        logger WARNING
          (''Connecting Geth plugin to non-Geth client '' @ apostrophe @ split_slash_first v
             @ apostrophe @ ''.'') p)"

text \<open>\<open>MAX_EXTRADATA_LENGTH\<close> of web3.\<close>

definition max_extradata_length :: nat where
  "max_extradata_length = 32"

definition already_added :: string where
  "already_added = ''You can'' @ apostrophe @ ''t add the same un-named instance twice''"

text \<open>\<open>middleware_onion.inject(geth_poa_middleware, layer=0)\<close> on one web3 handle.\<close>

definition inject_poa :: "web3 \<Rightarrow> exn + web3" where
  "inject_poa w =
     (if poa_middleware w then Inl (ValueError, already_added)
      else Inr (w\<lparr>poa_middleware := True\<rparr>))"

text \<open>
  The rest of \<open>_complete_connect\<close>: the chain-id query, the proof-of-authority probe on
  the latest block, the middleware, the chain-id check. The \<open>web3\<close> property of the base
  class raises when there is no handle; \<open>connect\<close> never gets there, since \<open>_set_web3\<close>
  comes first.
\<close>

definition connect_checks :: "conn_env \<Rightarrow> provider \<Rightarrow> (exn + unit) \<times> provider" where
  "connect_checks ce p =
     (case p_web3 p of
        None \<Rightarrow> (Inl (ProviderError, []), p)
      | Some w \<Rightarrow>
          (case chain_id_reply (target w) of
             ValueErrorDict m \<Rightarrow>
               (Inl (ProviderError, (case m of Some s \<Rightarrow> s | None \<Rightarrow> ''None'')), p)
           | ValueErrorPlain \<Rightarrow> (Inl (ProviderError, ''Error getting chain id.''), p)
           | ChainIdRaises e \<Rightarrow> (Inl e, p)
           | ChainId chain_id \<Rightarrow>
               (case (case latest_block (target w) of
                        Inl (k, m) \<Rightarrow> if k = ExtraDataLengthError then Inr True else Inl (k, m)
                      | Inr b \<Rightarrow> Inr (has_poa_data b \<or> extra_data_len b > max_extradata_length)) of
                  Inl e \<Rightarrow> (Inl e, p)
                | Inr is_likely_poa \<Rightarrow>
                    (case (if is_likely_poa then
                             (case inject_poa w of
                                Inl (k, m) \<Rightarrow>
                                  if k = ValueError \<and> str_in already_added m then Inr p
                                  else Inl (k, m)
                              | Inr w' \<Rightarrow> Inr (p\<lparr>p_web3 := Some w'\<rparr>))
                           else Inr p) of
                       Inl e \<Rightarrow> (Inl e, p)
                     | Inr p' \<Rightarrow>
                         (case verify_chain_id ce chain_id of
                            Some e \<Rightarrow> (Inl e, p')
                          | None \<Rightarrow> (Inr (), p'))))))"

definition complete_connect :: "conn_env \<Rightarrow> provider \<Rightarrow> (exn + unit) \<times> provider" where
  "complete_connect ce p = connect_checks ce (classify_client ce p)"

text \<open>\<open>Geth.connect\<close> and \<open>BaseGethProvider.disconnect\<close>.\<close>

definition Geth_connect :: "conn_env \<Rightarrow> node \<Rightarrow> provider \<Rightarrow> (exn + unit) \<times> provider" where
  "Geth_connect ce nd p0 =
     (let p = set_web3 nd p0 in
      if \<not> is_connected p then
        (Inl (ProviderError, ''No node found on '' @ apostrophe @ clean_uri ce @ apostrophe @ ''.''), p)
      else complete_connect ce p)"

definition disconnect :: "provider \<Rightarrow> provider" where
  "disconnect p = p\<lparr>p_web3 := None, p_client_version := None\<rparr>"

section \<open>Requests and call trees\<close>

text \<open>
  The inherited \<open>_make_request\<close> of the base class is not under src/: what it returns or
  raises for a request is the \<open>rpc\<close> field of the connected node. A request made without
  a handle raises in the base class.
\<close>

definition base_make_request :: "provider \<Rightarrow> string \<Rightarrow> json list \<Rightarrow> exn + json" where
  "base_make_request p endpoint parameters =
     (case p_web3 p of
        None \<Rightarrow> Inl (ProviderError, [])
      | Some w \<Rightarrow> rpc (target w) endpoint parameters)"

definition not_available :: string where
  "not_available = ''does not exist/is not available''"

text \<open>\<open>BaseGethProvider._make_request\<close>; every call is recorded in \<open>requests\<close>.\<close>

definition make_request :: "string \<Rightarrow> json list \<Rightarrow> provider \<Rightarrow> (exn + json) \<times> provider" where
  "make_request endpoint parameters p =
     (let p' = p\<lparr>requests := requests p @ [(endpoint, parameters)]\<rparr> in
      case base_make_request p endpoint parameters of
        Inr result \<Rightarrow> (Inr result, p')
      | Inl (k, msg) \<Rightarrow>
          if k = ProviderError then
            if str_in not_available msg then
              (Inl (APINotImplementedError,
                    ''RPC method '' @ apostrophe @ endpoint @ apostrophe
                      @ '' is not implemented by this node instance.''), p')
            else (Inl (k, msg), p')
          else (Inl (k, msg), p'))"

text \<open>
  The decoders of the evm-trace library together with \<open>_create_call_tree_node\<close>, from
  the decoded reply and the transaction hash to a call tree of type \<open>'t\<close>, or the
  exception they raise.
\<close>

record 't decoders =
  parity_tree :: "json \<Rightarrow> string \<Rightarrow> exn + 't"
  geth_tree :: "json \<Rightarrow> string \<Rightarrow> exn + 't"

definition call_tracer_params :: "string \<Rightarrow> json list" where
  "call_tracer_params txn_hash =
     [JStr txn_hash, JObj [(''enableMemory'', JBool True), (''tracer'', JStr ''callTracer'')]]"

definition get_transaction_trace_using_call_tracer ::
  "string \<Rightarrow> provider \<Rightarrow> (exn + json) \<times> provider" where
  "get_transaction_trace_using_call_tracer txn_hash p =
     make_request ''debug_traceTransaction'' (call_tracer_params txn_hash) p"

definition get_parity_call_tree ::
  "'t decoders \<Rightarrow> string \<Rightarrow> provider \<Rightarrow> (exn + 't) \<times> provider" where
  "get_parity_call_tree dec txn_hash p =
     (case make_request ''trace_transaction'' [JStr txn_hash] p of
        (Inl e, p') \<Rightarrow> (Inl e, p')
      | (Inr result, p') \<Rightarrow>
          if falsy result then
            (Inl (ProviderError,
                  ''Failed to get trace for '' @ apostrophe @ txn_hash @ apostrophe @ ''.''), p')
          else (parity_tree dec result txn_hash, p'))"

definition get_geth_call_tree ::
  "'t decoders \<Rightarrow> string \<Rightarrow> provider \<Rightarrow> (exn + 't) \<times> provider" where
  "get_geth_call_tree dec txn_hash p =
     (case get_transaction_trace_using_call_tracer txn_hash p of
        (Inl e, p') \<Rightarrow> (Inl e, p')
      | (Inr calls, p') \<Rightarrow> (geth_tree dec calls txn_hash, p'))"

text \<open>\<open>BaseGethProvider.get_call_tree\<close>.\<close>

definition get_call_tree ::
  "'t decoders \<Rightarrow> string \<Rightarrow> provider \<Rightarrow> (exn + 't) \<times> provider" where
  "get_call_tree dec txn_hash p0 =
     (let (v, p) = client_version p0 in
      if str_in ''erigon'' (lower v) then get_parity_call_tree dec txn_hash p
      else
        (case get_parity_call_tree dec txn_hash p of
           (Inr tree, p') \<Rightarrow> (Inr tree, p')
         | (Inl (k, msg), p') \<Rightarrow>
             if k \<in> {ValueError, APINotImplementedError, ProviderError} then
               get_geth_call_tree dec txn_hash p'
             else (Inl (k, msg), p')))"

text \<open>
  \<open>GethDev.get_call_tree\<close> passes its keyword arguments on to \<open>_get_geth_call_tree\<close>,
  which takes none: any keyword argument is a \<open>TypeError\<close> at the call.
\<close>

definition GethDev_get_call_tree ::
  "'t decoders \<Rightarrow> string \<Rightarrow> (string \<times> json) list \<Rightarrow> provider \<Rightarrow> (exn + 't) \<times> provider" where
  "GethDev_get_call_tree dec txn_hash root_node_kwargs p =
     (case root_node_kwargs of
        [] \<Rightarrow> get_geth_call_tree dec txn_hash p
      | (key, _) # _ \<Rightarrow>
          (Inl (TypeError, ''_get_geth_call_tree() got an unexpected keyword argument ''
                  @ apostrophe @ key @ apostrophe), p))"

section \<open>Snapshot and revert\<close>

text \<open>
  A snapshot id is an integer, a byte string or a text (\<open>SnapshotID\<close>). \<open>hex_digits\<close> and
  \<open>to_hex\<close> print an integer as Python's \<open>hex\<close> does, \<open>bytes_hex\<close> is \<open>bytes.hex()\<close>,
  \<open>add_0x_prefix\<close> is the function of eth-utils.
\<close>

datatype snapshot_id = IntID int | BytesID "char list" | StrID string

definition hex_digit :: "nat \<Rightarrow> char" where
  "hex_digit d = ''0123456789abcdef'' ! (d mod 16)"

fun hex_digits :: "nat \<Rightarrow> string" where
  "hex_digits n = (if n < 16 then [hex_digit n] else hex_digits (n div 16) @ [hex_digit (n mod 16)])"

definition to_hex :: "int \<Rightarrow> string" where
  "to_hex i = (if i < 0 then ''-0x'' @ hex_digits (nat (- i)) else ''0x'' @ hex_digits (nat i))"

definition bytes_hex :: "char list \<Rightarrow> string" where
  "bytes_hex bs =
     concat (map (\<lambda>c. [hex_digit (of_char c div 16), hex_digit (of_char c mod 16)]) bs)"

definition add_0x_prefix :: "string \<Rightarrow> string" where
  "add_0x_prefix v = (if startswith v ''0x'' \<or> startswith v ''0X'' then v else ''0x'' @ v)"

text \<open>
  The number of the latest block as the provider reads it
  (\<open>self.get_block("latest").number\<close>), or the exception of that read.
\<close>

definition latest_number :: "provider \<Rightarrow> exn + int option" where
  "latest_number p =
     (case p_web3 p of
        None \<Rightarrow> Inl (ProviderError, [])
      | Some w \<Rightarrow>
          (case latest_block (target w) of
             Inl e \<Rightarrow> Inl e
           | Inr b \<Rightarrow> Inr (number b)))"

text \<open>\<open>GethDev.snapshot\<close>: \<open>number or 0\<close>.\<close>

definition snapshot :: "provider \<Rightarrow> exn + snapshot_id" where
  "snapshot p =
     (case latest_number p of
        Inl e \<Rightarrow> Inl e
      | Inr n \<Rightarrow> Inr (IntID (case n of None \<Rightarrow> 0 | Some k \<Rightarrow> if k = 0 then 0 else k)))"

text \<open>
  The first part of \<open>GethDev.revert\<close>: the block number and its hexadecimal text.
  \<open>int16\<close> is Python's \<open>int(s, 16)\<close>, \<open>None\<close> where it raises \<open>ValueError\<close>.
\<close>

definition decode_snapshot_id ::
  "(string \<Rightarrow> int option) \<Rightarrow> snapshot_id \<Rightarrow> exn + int \<times> string" where
  "decode_snapshot_id int16 snapshot_id =
     (case snapshot_id of
        IntID i \<Rightarrow> Inr (i, to_hex i)
      | BytesID b \<Rightarrow>
          (let block_number_hex_str = add_0x_prefix (bytes_hex b) in
           case int16 block_number_hex_str of
             None \<Rightarrow> Inl (ValueError, block_number_hex_str)
           | Some i \<Rightarrow> Inr (i, block_number_hex_str))
      | StrID s \<Rightarrow>
          (let block_number_hex_str = add_0x_prefix s in
           case int16 s of
             None \<Rightarrow> Inl (ValueError, s)
           | Some i \<Rightarrow> Inr (i, block_number_hex_str)))"

text \<open>
  \<open>GethDev.revert\<close>. The second test compares \<open>block_number_int\<close> with itself, as the
  source does.
\<close>

definition revert ::
  "(string \<Rightarrow> int option) \<Rightarrow> snapshot_id \<Rightarrow> provider \<Rightarrow> (exn + unit) \<times> provider" where
  "revert int16 snapshot_id p =
     (case decode_snapshot_id int16 snapshot_id of
        Inl e \<Rightarrow> (Inl e, p)
      | Inr (block_number_int, block_number_hex_str) \<Rightarrow>
          (case latest_number p of
             Inl e \<Rightarrow> (Inl e, p)
           | Inr current_block \<Rightarrow>
               if Some block_number_int = current_block then (Inr (), p)
               else if block_number_int > block_number_int then
                 (Inr (), logger ERROR ''Unable to set head to future block.'' p)
               else
                 (case make_request ''debug_setHead'' [JStr block_number_hex_str] p of
                    (Inl e, p') \<Rightarrow> (Inl e, p')
                  | (Inr _, p') \<Rightarrow> (Inr (), p'))))"

text \<open>The names of the endpoints requested so far.\<close>

definition requested :: "provider \<Rightarrow> string list" where
  "requested p = map fst (requests p)"

section \<open>The development node process\<close>

text \<open>
  A path is its list of components. \<open>world\<close> is what the process class changes outside
  itself: the directories that exist, the calls of \<open>initialize_chain\<close> with their
  arguments, and the node processes started (\<open>Popen\<close>), each with the arguments its
  command line is built from.
\<close>

type_synonym path = "string list"

record geth_kwargs =
  kw_data_dir :: path
  kw_geth_executable :: "string option"
  kw_rpc_addr :: string
  kw_rpc_port :: nat
  kw_network_id :: nat
  kw_miner_etherbase :: "string option"

record genesis =
  g_overwrite :: bool
  g_coinbase :: string
  g_difficulty :: string
  g_extraData :: string
  g_config :: "(string \<times> json) list"
  g_alloc :: "(string \<times> (string \<times> string) list) list"

record world =
  dirs :: "path list"
  chain_inits :: "(genesis \<times> geth_kwargs) list"
  spawned :: "geth_kwargs list"

text \<open>
  What the class takes from outside this file: whether \<open>shutil.which("geth")\<close> finds
  the binary; the two defaults of \<open>ape.utils\<close>; \<open>ensure_account_exists\<close>, with the
  account it returns, decoded, or the exception it raises, and what it has done to the
  directories by then; \<open>generate_dev_accounts\<close>, with the addresses or the exception;
  \<open>initialize_chain\<close>, with the exception it raises, if any, and what it has done to the
  directories; and \<open>BaseGethProcess.__init__\<close>, with the exception it raises, if any.
\<close>

record env =
  which_geth :: bool
  default_test_mnemonic :: string
  default_number_of_test_accounts :: nat
  ensure_account_exists :: "geth_kwargs \<Rightarrow> path list \<Rightarrow> (exn + string) \<times> path list"
  generate_dev_accounts :: "string \<Rightarrow> nat \<Rightarrow> exn + string list"
  initialize_chain :: "genesis \<Rightarrow> geth_kwargs \<Rightarrow> path list \<Rightarrow> exn option \<times> path list"
  base_process_init :: "geth_kwargs \<Rightarrow> exn option"

definition default_port :: nat where
  "default_port = 8545"

definition geth_dev_chain_id :: nat where
  "geth_dev_chain_id = 1337"

datatype balance = BalanceStr string | BalanceInt int

fun dec_digits :: "nat \<Rightarrow> string" where
  "dec_digits n =
     (if n < 10 then [''0123456789'' ! n] else dec_digits (n div 10) @ [''0123456789'' ! (n mod 10)])"

text \<open>\<open>str(initial_balance)\<close>.\<close>

definition str_balance :: "balance \<Rightarrow> string" where
  "str_balance b =
     (case b of
        BalanceStr s \<Rightarrow> s
      | BalanceInt i \<Rightarrow> if i < 0 then ''-'' @ dec_digits (nat (- i)) else dec_digits (nat i))"

text \<open>\<open>to_wei(10000, "ether")\<close>.\<close>

definition default_initial_balance :: balance where
  "default_initial_balance = BalanceInt (10000 * 10 ^ 18)"

text \<open>\<open>d[k] = v\<close> on a dictionary kept in insertion order.\<close>

fun dict_set :: "'k \<Rightarrow> 'v \<Rightarrow> ('k \<times> 'v) list \<Rightarrow> ('k \<times> 'v) list" where
  "dict_set k v [] = [(k, v)]"
| "dict_set k v ((k', v') # kvs) =
     (if k' = k then (k, v) # kvs else (k', v') # dict_set k v kvs)"

text \<open>\<open>mkdir(exist_ok=True, parents=True)\<close> and \<open>_clean\<close> (\<open>shutil.rmtree\<close>).\<close>

definition mkdir_parents :: "path \<Rightarrow> path list \<Rightarrow> path list" where
  "mkdir_parents d ds =
     foldl (\<lambda>acc q. if q \<in> set acc then acc else acc @ [q]) ds
       (map (\<lambda>n. take n d) [1..<Suc (length d)])"

definition clean :: "path \<Rightarrow> path list \<Rightarrow> path list" where
  "clean d ds = (if d \<in> set ds then filter (\<lambda>q. take (length d) q \<noteq> d) ds else ds)"

text \<open>
  The dictionary passed to \<open>initialize_chain\<close>, as \<open>__init__\<close> builds it from the chain
  id, the sealer, the accounts and the initial balance.
\<close>

definition genesis_data :: "nat \<Rightarrow> string \<Rightarrow> string list \<Rightarrow> balance \<Rightarrow> genesis" where
  "genesis_data chain_id sealer accounts initial_balance =
     \<lparr>g_overwrite = True,
      g_coinbase = ''0x0000000000000000000000000000000000000000'',
      g_difficulty = ''0x0'',
      g_extraData = ''0x'' @ replicate 64 (CHR ''0'') @ sealer @ replicate 130 (CHR ''0''),
      g_config =
        [(''chainId'', JNum (int chain_id)),
         (''gasLimit'', JNum 0),
         (''homesteadBlock'', JNum 0),
         (''difficulty'', JStr ''0x0''),
         (''eip150Block'', JNum 0),
         (''eip155Block'', JNum 0),
         (''eip158Block'', JNum 0),
         (''byzantiumBlock'', JNum 0),
         (''constantinopleBlock'', JNum 0),
         (''petersburgBlock'', JNum 0),
         (''istanbulBlock'', JNum 0),
         (''berlinBlock'', JNum 0),
         (''londonBlock'', JNum 0),
         (''parisBlock'', JNum 0),
         (''clique'', JObj [(''period'', JNum 0), (''epoch'', JNum 30000)])],
      g_alloc =
        foldl (\<lambda>d a. dict_set a [(''balance'', str_balance initial_balance)] d) [] accounts\<rparr>"

record geth_dev_process =
  data_dir :: path
  hostname :: string
  port :: nat
  is_running :: bool
  geth_kwargs :: geth_kwargs
  stdout_logfile_path :: path
  stderr_logfile_path :: path

text \<open>The message of \<open>GethNotInstalledError\<close>.\<close>

definition geth_not_installed_message :: string where
  "geth_not_installed_message =
     ''geth is not installed and there is no local provider running.'' @ [CHR 0x0A]
     @ ''Things you can do:'' @ [CHR 0x0A]
     @ [CHR 0x09] @ ''1. Install geth and try again'' @ [CHR 0x0A]
     @ [CHR 0x09] @ ''2. Run geth separately and try again'' @ [CHR 0x0A]
     @ [CHR 0x09] @ ''3. Use a different ape provider plugin''"

text \<open>
  \<open>GethDevProcess.__init__\<close>. \<open>construct_test_chain_kwargs\<close> is kept to the arguments
  this file gives it (the websocket ones are all off). An exception of one of the
  outside functions leaves the world as the steps before it have made it.
\<close>

definition GethDevProcess_init ::
  "env \<Rightarrow> path \<Rightarrow> string \<Rightarrow> nat \<Rightarrow> string \<Rightarrow> nat \<Rightarrow> nat \<Rightarrow> balance \<Rightarrow> string option \<Rightarrow> world
     \<Rightarrow> (exn + geth_dev_process) \<times> world" where
  "GethDevProcess_init ev data_dir0 hostname0 port0 mnemonic number_of_accounts chain_id
       initial_balance executable w =
     (if \<not> which_geth ev then (Inl (GethNotInstalledError, geth_not_installed_message), w)
      else
        (let ds1 = mkdir_parents data_dir0 (dirs w);
             kwargs0 = \<lparr>kw_data_dir = data_dir0, kw_geth_executable = executable,
                        kw_rpc_addr = hostname0, kw_rpc_port = port0,
                        kw_network_id = chain_id, kw_miner_etherbase = None\<rparr>;
             ds2 = clean data_dir0 ds1
         in case ensure_account_exists ev kwargs0 ds2 of
              (Inl e, ds3) \<Rightarrow> (Inl e, w\<lparr>dirs := ds3\<rparr>)
            | (Inr account, ds3) \<Rightarrow>
                (let sealer = replace_0x account;
                     kwargs = kwargs0\<lparr>kw_miner_etherbase := Some sealer\<rparr>
                 in case generate_dev_accounts ev mnemonic number_of_accounts of
                      Inl e \<Rightarrow> (Inl e, w\<lparr>dirs := ds3\<rparr>)
                    | Inr accounts \<Rightarrow>
                        (let genesis = genesis_data chain_id sealer accounts initial_balance;
                             inits = chain_inits w @ [(genesis, kwargs)]
                         in case initialize_chain ev genesis kwargs ds3 of
                              (Some e, ds4) \<Rightarrow> (Inl e, w\<lparr>dirs := ds4, chain_inits := inits\<rparr>)
                            | (None, ds4) \<Rightarrow>
                                (let logs = data_dir0 @ [''geth-logs''];
                                     ds5 = mkdir_parents logs (mkdir_parents logs ds4);
                                     w5 = w\<lparr>dirs := ds5, chain_inits := inits\<rparr>
                                 in case base_process_init ev kwargs of
                                      Some e \<Rightarrow> (Inl e, w5)
                                    | None \<Rightarrow>
                                        (Inr \<lparr>data_dir = data_dir0, hostname = hostname0,
                                               port = port0, is_running = False,
                                               geth_kwargs = kwargs,
                                               stdout_logfile_path =
                                                 logs @ [''stdout_'' @ dec_digits port0],
                                               stderr_logfile_path =
                                                 logs @ [''stderr_'' @ dec_digits port0]\<rparr>,
                                         w5))))))"

text \<open>
  \<open>GethDevProcess.from_uri\<close>, on the host and the port that the URL parser reads from
  the URI, and the keyword arguments it looks at.
\<close>

record parsed_uri =
  uri_host :: "string option"
  uri_port :: "nat option"

record from_uri_kwargs =
  arg_mnemonic :: "string option"
  arg_number_of_accounts :: "nat option"
  arg_executable :: "string option"

definition from_uri ::
  "env \<Rightarrow> parsed_uri \<Rightarrow> path \<Rightarrow> from_uri_kwargs \<Rightarrow> world \<Rightarrow> (exn + geth_dev_process) \<times> world" where
  "from_uri ev parsed data_folder kwargs w =
     (if uri_host parsed \<notin> {Some ''localhost'', Some ''127.0.0.1''} then
        (Inl (ConnectionError,
              ''Unable to start Geth on non-local host ''
                @ (case uri_host parsed of None \<Rightarrow> ''None'' | Some h \<Rightarrow> h) @ ''.''), w)
      else
        (let host = (case uri_host parsed of Some h \<Rightarrow> h | None \<Rightarrow> []);
             port1 = (case uri_port parsed of Some n \<Rightarrow> n | None \<Rightarrow> default_port);
             mnemonic =
               (case arg_mnemonic kwargs of Some m \<Rightarrow> m | None \<Rightarrow> default_test_mnemonic ev);
             number_of_accounts =
               (case arg_number_of_accounts kwargs of
                  Some n \<Rightarrow> n
                | None \<Rightarrow> default_number_of_test_accounts ev)
         in GethDevProcess_init ev data_folder host port1 mnemonic number_of_accounts
              geth_dev_chain_id default_initial_balance (arg_executable kwargs) w))"

text \<open>\<open>GethDevProcess.start\<close>.\<close>

definition start :: "geth_dev_process \<Rightarrow> world \<Rightarrow> geth_dev_process \<times> world" where
  "start gp w =
     (if is_running gp then (gp, w)
      else (gp\<lparr>is_running := True\<rparr>, w\<lparr>spawned := spawned w @ [geth_kwargs gp]\<rparr>))"

section \<open>The streaming reader\<close>

text \<open>
  The incremental JSON parser (ijson) is taken from outside: \<open>items_coro\<close> gives the
  coroutine for an item path, and \<open>send\<close> feeds it one chunk. A send appends the items
  it completes to the list the coroutine was given, and then either returns, leaving
  the coroutine in a new state, or raises: its value is the items appended, with the
  new state or the exception.
\<close>

type_synonym bytes = "char list"

record ('ps, 'r) ijson =
  items_coro :: "string \<Rightarrow> 'ps"
  send :: "'ps \<Rightarrow> bytes \<Rightarrow> 'r list \<times> (exn + 'ps)"

text \<open>
  The state of the generator: the coroutine, the list \<open>results\<close> it writes to, and the
  records yielded to the consumer so far.
\<close>

record ('ps, 'r) reader =
  coroutine :: 'ps
  results :: "'r list"
  yielded :: "'r list"

text \<open>
  One turn of the loop: \<open>coroutine.send(chunk)\<close>, \<open>yield from results\<close>, \<open>del results[:]\<close>.
  When the send raises, the generator ends there: what the send appended stays in
  \<open>results\<close>, neither yielded nor removed.
\<close>

definition reader_step ::
  "('ps, 'r) ijson \<Rightarrow> bytes \<Rightarrow> ('ps, 'r) reader \<Rightarrow> ('ps, 'r) reader \<times> exn option" where
  "reader_step js chunk rd =
     (case send js (coroutine rd) chunk of
        (completed, outcome) \<Rightarrow>
          (let rd1 = rd\<lparr>results := results rd @ completed\<rparr> in
           case outcome of
             Inl e \<Rightarrow> (rd1, Some e)
           | Inr co \<Rightarrow>
               (let rd2 = rd1\<lparr>coroutine := co, yielded := yielded rd1 @ results rd1\<rparr>
                in (rd2\<lparr>results := []\<rparr>, None))))"

fun stream_chunks ::
  "('ps, 'r) ijson \<Rightarrow> ('ps, 'r) reader \<Rightarrow> bytes list \<Rightarrow> ('ps, 'r) reader \<times> exn option" where
  "stream_chunks js rd [] = (rd, None)"
| "stream_chunks js rd (chunk # rest) =
     (case reader_step js chunk rd of
        (rd', Some e) \<Rightarrow> (rd', Some e)
      | (rd', None) \<Rightarrow> stream_chunks js rd' rest)"

text \<open>
  The HTTP response: whether its status passes \<open>raise_for_status\<close>, and the chunks that
  \<open>iter_content\<close> hands over, each a non-empty piece of the body.
\<close>

record response =
  status_ok :: bool
  content_chunks :: "bytes list"

text \<open>
  \<open>_stream_request\<close>: \<open>post\<close> is \<open>requests.post\<close> to the provider's URI with the payload.
  The result is the generator's last state, with everything it yielded, and the
  exception that ended it, if any.
\<close>

definition stream_request ::
  "('ps, 'r) ijson \<Rightarrow> (json \<Rightarrow> exn + response) \<Rightarrow> string \<Rightarrow> json list \<Rightarrow> string
     \<Rightarrow> ('ps, 'r) reader \<times> exn option" where
  "stream_request js post method params iter_path =
     (let payload = JObj [(''jsonrpc'', JStr ''2.0''), (''id'', JNum 1),
                          (''method'', JStr method), (''params'', JArr params)];
          rd = \<lparr>coroutine = items_coro js iter_path, results = [], yielded = []\<rparr>
      in case post payload of
           Inl e \<Rightarrow> (rd, Some e)
         | Inr resp \<Rightarrow>
             if \<not> status_ok resp then (rd, Some (HTTPError, []))
             else stream_chunks js rd (content_chunks resp))"

section \<open>Concrete nodes and surroundings\<close>

text \<open>
  A node that answers, reports version \<open>v\<close>, chain id 1337 and a plain latest block with
  number \<open>head\<close>, replies \<open>parity\<close> to \<open>trace_transaction\<close> and \<open>other\<close> to every other
  request.
\<close>

definition node_reporting :: "string \<Rightarrow> int \<Rightarrow> exn + json \<Rightarrow> exn + json \<Rightarrow> node" where
  "node_reporting v head parity other =
     \<lparr>alive = True, version = v, chain_id_reply = ChainId 1337,
      latest_block = Inr \<lparr>has_poa_data = False, extra_data_len = 0, number = Some head\<rparr>,
      rpc = (\<lambda>endpoint parameters. if endpoint = ''trace_transaction'' then parity else other)\<rparr>"

definition local_env :: conn_env where
  "local_env =
     \<lparr>clean_uri = ''http://localhost:8545'', ipc_shown = None, verify_chain_id = (\<lambda>_. None)\<rparr>"

text \<open>A provider connected to such a node.\<close>

definition connected_to :: "node \<Rightarrow> provider" where
  "connected_to nd = set_web3 nd new_provider"

definition method_not_found :: "exn + json" where
  "method_not_found =
     Inl (ProviderError, ''the method trace_transaction does not exist/is not available'')"

definition some_trace :: "exn + json" where
  "some_trace = Inr (JObj [(''type'', JStr ''CALL'')])"

text \<open>Decoders that return the reply they are given, tagged with the format it came in.\<close>

definition tagging_decoders :: "(string \<times> json) decoders" where
  "tagging_decoders =
     \<lparr>parity_tree = (\<lambda>result txn_hash. Inr (''parity'', result)),
      geth_tree = (\<lambda>calls txn_hash. Inr (''callTracer'', calls))\<rparr>"

text \<open>
  Surroundings of the process class in which the binary is installed, the account
  that \<open>ensure_account_exists\<close> returns is a 20-byte address, and the account
  generator numbers its addresses.
\<close>

definition sealer_account :: string where
  "sealer_account = ''0x1e59ce931b4cfea3fe4b875411e280e173cb7a9c''"

definition dev_env :: env where
  "dev_env =
     \<lparr>which_geth = True,
      default_test_mnemonic = ''test test test test test test test test test test test junk'',
      default_number_of_test_accounts = 10,
      ensure_account_exists =
        (\<lambda>kw ds. (Inr sealer_account, mkdir_parents (kw_data_dir kw) ds)),
      generate_dev_accounts = (\<lambda>mnemonic n. Inr (map (\<lambda>i. ''0xacc'' @ dec_digits i) [0..<n])),
      initialize_chain = (\<lambda>g kw ds. (None, ds)),
      base_process_init = (\<lambda>kw. None)\<rparr>"

definition empty_world :: world where
  "empty_world = \<lparr>dirs = [], chain_inits = [], spawned = []\<rparr>"

definition no_kwargs :: from_uri_kwargs where
  "no_kwargs = \<lparr>arg_mnemonic = None, arg_number_of_accounts = None, arg_executable = None\<rparr>"

text \<open>
  A small incremental parser to run the reader on: records are the texts between
  semicolons, the coroutine is the text of the record not yet closed, and an
  exclamation mark is a syntax error, raised after the records before it are appended.
\<close>

fun record_send :: "string \<Rightarrow> bytes \<Rightarrow> string list \<times> (exn + string)" where
  "record_send pending [] = ([], Inr pending)"
| "record_send pending (c # cs) =
     (if c = CHR ''!'' then ([], Inl (ValueError, ''parse error''))
      else if c = CHR '';'' then
        (case record_send [] cs of (rs, outcome) \<Rightarrow> (pending # rs, outcome))
      else record_send (pending @ [c]) cs)"

definition record_parser :: "(string, string) ijson" where
  "record_parser = \<lparr>items_coro = (\<lambda>iter_path. []), send = record_send\<rparr>"

text \<open>The reader before the first chunk.\<close>

definition fresh_reader :: "('ps, 'r) ijson \<Rightarrow> string \<Rightarrow> ('ps, 'r) reader" where
  "fresh_reader js iter_path = \<lparr>coroutine = items_coro js iter_path, results = [], yielded = []\<rparr>"

section \<open>Evaluation\<close>

lemmas eval_defs = connected_to_def node_reporting_def set_web3_def new_provider_def
  client_version_def lower_def lower_char_def classify_client_def log_connection_def logger_def
  local_env_def Geth_connect_def is_connected_def complete_connect_def connect_checks_def
  disconnect_def max_extradata_length_def make_request_def base_make_request_def
  get_call_tree_def get_parity_call_tree_def get_geth_call_tree_def
  get_transaction_trace_using_call_tracer_def call_tracer_params_def tagging_decoders_def
  some_trace_def method_not_found_def not_available_def requested_def
  revert_def decode_snapshot_id_def to_hex_def hex_digit_def latest_number_def snapshot_def
  GethDev_get_call_tree_def split_slash_first_def

text \<open>Reading the version changes nothing but the cached version.\<close>

lemma client_version_keeps:
  assumes "client_version p0 = (v, p)"
  shows "requests p = requests p0" and "p_web3 p = p_web3 p0" and "logged p = logged p0"
    and "concurrency p = concurrency p0" and "block_page_size p = block_page_size p0"
  using assms by (auto simp: client_version_def split: option.splits)

section \<open>Snapshot and revert: properties\<close>

text \<open>
  C1. The claim: a snapshot id whose block number is above the current head makes
  \<open>revert\<close> log an error and return without the \<open>debug_setHead\<close> request. The guard
  that would do so compares \<open>block_number_int\<close> with itself and never holds: with the
  head at block 3, \<open>revert(5)\<close> logs nothing and sends \<open>debug_setHead\<close> with \<open>0x5\<close>.
\<close>

theorem revert_future_block_sets_head:
  "revert (\<lambda>s. None) (IntID 5)
     (connected_to (node_reporting ''Geth/v1.10.26'' 3 some_trace some_trace))
   = (Inr (), (connected_to (node_reporting ''Geth/v1.10.26'' 3 some_trace some_trace))
        \<lparr>requests := [(''debug_setHead'', [JStr ''0x5''])]\<rparr>)
   \<and> logged (snd (revert (\<lambda>s. None) (IntID 5)
     (connected_to (node_reporting ''Geth/v1.10.26'' 3 some_trace some_trace)))) = []"
  by (simp add: eval_defs)

text \<open>
  In general: once the id is decoded and the latest block read, \<open>revert\<close> sends
  \<open>debug_setHead\<close> unless the number equals the head, and it logs nothing.
\<close>

lemma revert_requests:
  assumes "decode_snapshot_id int16 snapshot_id = Inr (i, h)"
    and "latest_number p = Inr current_block"
  shows "requests (snd (revert int16 snapshot_id p)) =
           requests p @ (if Some i = current_block then [] else [(''debug_setHead'', [JStr h])])
       \<and> logged (snd (revert int16 snapshot_id p)) = logged p"
  using assms
  by (auto simp: revert_def make_request_def Let_def split: sum.splits prod.splits)

text \<open>
  C9. When the latest block has number \<open>n\<close>, \<open>snapshot()\<close> returns \<open>n\<close> and
  \<open>revert\<close> of that id right afterwards returns at the first test: the provider is
  left as it was, so no \<open>debug_setHead\<close> request is made and nothing is logged.
\<close>

theorem revert_snapshot_noop:
  assumes "latest_number p = Inr (Some n)"
  shows "snapshot p = Inr (IntID n) \<and> revert int16 (IntID n) p = (Inr (), p)"
  using assms by (simp add: snapshot_def revert_def decode_snapshot_id_def)

text \<open>C9, at a node whose head is block 7.\<close>

theorem revert_snapshot_noop_witness:
  "latest_number (connected_to (node_reporting ''Geth/v1.10.26'' 7 some_trace some_trace))
     = Inr (Some 7)
   \<and> snapshot (connected_to (node_reporting ''Geth/v1.10.26'' 7 some_trace some_trace))
       = Inr (IntID 7)
   \<and> revert (\<lambda>s. None) (IntID 7)
        (connected_to (node_reporting ''Geth/v1.10.26'' 7 some_trace some_trace))
       = (Inr (), connected_to (node_reporting ''Geth/v1.10.26'' 7 some_trace some_trace))"
  using revert_snapshot_noop
    [of "connected_to (node_reporting ''Geth/v1.10.26'' 7 some_trace some_trace)" 7 "\<lambda>s. None"]
  by (simp add: latest_number_def connected_to_def node_reporting_def set_web3_def)

section \<open>Call trees: properties\<close>



text \<open>
  C2, the claim as stated fails: connected to a node that reports \<open>erigon/2.40.0\<close>,
  \<open>get_call_tree\<close> requests \<open>trace_transaction\<close>, never the call tracer, and returns the
  tree decoded from the parity-style reply.
\<close>

theorem get_call_tree_erigon_counterexample:
  "str_in ''erigon'' (lower (version (node_reporting ''erigon/2.40.0'' 3 some_trace some_trace)))
   \<and> requested (snd (get_call_tree tagging_decoders ''0xabc''
        (connected_to (node_reporting ''erigon/2.40.0'' 3 some_trace some_trace))))
       = [''trace_transaction'']
   \<and> fst (get_call_tree tagging_decoders ''0xabc''
        (connected_to (node_reporting ''erigon/2.40.0'' 3 some_trace some_trace)))
       = Inr (''parity'', JObj [(''type'', JStr ''CALL'')])"
  by (simp add: eval_defs)

text \<open>
  C2, amended. When the client version contains "erigon" (in any case), \<open>get_call_tree\<close>
  is \<open>_get_parity_call_tree\<close>: it makes the \<open>trace_transaction\<close> request and no other,
  and there is no fallback to the call tracer.
\<close>

theorem get_call_tree_erigon_parity_only:
  assumes "client_version p0 = (v, p)" and "str_in ''erigon'' (lower v)"
  shows "get_call_tree dec txn_hash p0 = get_parity_call_tree dec txn_hash p
       \<and> requests (snd (get_call_tree dec txn_hash p0)) =
           requests p0 @ [(''trace_transaction'', [JStr txn_hash])]"
proof -
  have "requests p = requests p0"
    using assms(1) by (auto simp: client_version_def split: option.splits)
  then show ?thesis
    using assms
    by (auto simp: get_call_tree_def get_parity_call_tree_def make_request_def Let_def
        split: sum.splits prod.splits)
qed

text \<open>C2, amended, at a node that reports \<open>Erigon/2.40.0\<close>.\<close>

theorem get_call_tree_erigon_parity_only_witness:
  "client_version (connected_to (node_reporting ''Erigon/2.40.0'' 3 method_not_found some_trace))
     = (''Erigon/2.40.0'',
        (connected_to (node_reporting ''Erigon/2.40.0'' 3 method_not_found some_trace))
          \<lparr>p_client_version := Some ''Erigon/2.40.0''\<rparr>)
   \<and> str_in ''erigon'' (lower ''Erigon/2.40.0'')
   \<and> requests (snd (get_call_tree tagging_decoders ''0xabc''
        (connected_to (node_reporting ''Erigon/2.40.0'' 3 method_not_found some_trace))))
       = [(''trace_transaction'', [JStr ''0xabc''])]"
  using get_call_tree_erigon_parity_only
    [of "connected_to (node_reporting ''Erigon/2.40.0'' 3 method_not_found some_trace)"
        "''Erigon/2.40.0''"
        "(connected_to (node_reporting ''Erigon/2.40.0'' 3 method_not_found some_trace))
          \<lparr>p_client_version := Some ''Erigon/2.40.0''\<rparr>"
        tagging_decoders "''0xabc''"]
  by (simp add: eval_defs)

text \<open>
  C4, the claim as stated fails: connected to a node that reports \<open>erigon/2.40.0\<close> and
  answers \<open>trace_transaction\<close> with the unsupported-method message, \<open>get_call_tree\<close>
  raises the not-implemented error and never asks for the call tracer.
\<close>

theorem get_call_tree_unsupported_counterexample:
  "base_make_request (connected_to (node_reporting ''erigon/2.40.0'' 3 method_not_found some_trace))
      ''trace_transaction'' [JStr ''0xabc'']
     = Inl (ProviderError, ''the method trace_transaction does not exist/is not available'')
   \<and> str_in not_available ''the method trace_transaction does not exist/is not available''
   \<and> fst (get_call_tree tagging_decoders ''0xabc''
        (connected_to (node_reporting ''erigon/2.40.0'' 3 method_not_found some_trace)))
       = Inl (APINotImplementedError,
              ''RPC method '' @ apostrophe @ ''trace_transaction'' @ apostrophe
                @ '' is not implemented by this node instance.'')
   \<and> requested (snd (get_call_tree tagging_decoders ''0xabc''
        (connected_to (node_reporting ''erigon/2.40.0'' 3 method_not_found some_trace))))
       = [''trace_transaction'']"
  by (simp add: eval_defs)

text \<open>
  C4, amended. When the client version does not contain "erigon" and the inherited
  request for \<open>trace_transaction\<close> raises a provider error whose message contains the
  unsupported-method phrase, \<open>_make_request\<close> raises the not-implemented error instead,
  \<open>get_call_tree\<close> continues as \<open>_get_geth_call_tree\<close> (so the two requests made are
  \<open>trace_transaction\<close> and then \<open>debug_traceTransaction\<close> with the call tracer), and
  when that request returns a reply that the decoder turns into a tree, this tree is the
  result.
\<close>

theorem get_call_tree_falls_back:
  assumes cv: "client_version p0 = (v, p)"
    and ne: "\<not> str_in ''erigon'' (lower v)"
    and un: "base_make_request p ''trace_transaction'' [JStr txn_hash] = Inl (ProviderError, msg)"
    and ph: "str_in not_available msg"
  shows "make_request ''trace_transaction'' [JStr txn_hash] p =
           (Inl (APINotImplementedError,
                 ''RPC method '' @ apostrophe @ ''trace_transaction'' @ apostrophe
                   @ '' is not implemented by this node instance.''),
            p\<lparr>requests := requests p @ [(''trace_transaction'', [JStr txn_hash])]\<rparr>)
       \<and> get_call_tree dec txn_hash p0 =
           get_geth_call_tree dec txn_hash
             (p\<lparr>requests := requests p @ [(''trace_transaction'', [JStr txn_hash])]\<rparr>)
       \<and> requests (snd (get_call_tree dec txn_hash p0)) =
           requests p0 @ [(''trace_transaction'', [JStr txn_hash]),
                          (''debug_traceTransaction'', call_tracer_params txn_hash)]
       \<and> (\<forall>calls tree.
             base_make_request p ''debug_traceTransaction'' (call_tracer_params txn_hash) = Inr calls
               \<and> geth_tree dec calls txn_hash = Inr tree
             \<longrightarrow> fst (get_call_tree dec txn_hash p0) = Inr tree)"
proof -
  let ?p1 = "p\<lparr>requests := requests p @ [(''trace_transaction'', [JStr txn_hash])]\<rparr>"
  have mr: "make_request ''trace_transaction'' [JStr txn_hash] p =
           (Inl (APINotImplementedError,
                 ''RPC method '' @ apostrophe @ ''trace_transaction'' @ apostrophe
                   @ '' is not implemented by this node instance.''), ?p1)"
    using un ph by (simp add: make_request_def)
  have par: "get_parity_call_tree dec txn_hash p =
           (Inl (APINotImplementedError,
                 ''RPC method '' @ apostrophe @ ''trace_transaction'' @ apostrophe
                   @ '' is not implemented by this node instance.''), ?p1)"
    using mr by (simp add: get_parity_call_tree_def)
  have gct: "get_call_tree dec txn_hash p0 = get_geth_call_tree dec txn_hash ?p1"
    using cv ne par by (simp add: get_call_tree_def)
  have base: "base_make_request ?p1 e ps = base_make_request p e ps" for e ps
    by (simp add: base_make_request_def)
  have reqs: "requests (snd (get_geth_call_tree dec txn_hash ?p1)) =
      requests ?p1 @ [(''debug_traceTransaction'', call_tracer_params txn_hash)]"
    by (auto simp: get_geth_call_tree_def get_transaction_trace_using_call_tracer_def
          make_request_def Let_def split: sum.splits prod.splits)
  have tree: "fst (get_geth_call_tree dec txn_hash ?p1) = Inr tree"
    if "base_make_request p ''debug_traceTransaction'' (call_tracer_params txn_hash) = Inr calls"
      and "geth_tree dec calls txn_hash = Inr tree" for calls tree
    using that base [of "''debug_traceTransaction''" "call_tracer_params txn_hash"]
    by (simp add: get_geth_call_tree_def get_transaction_trace_using_call_tracer_def
          make_request_def Let_def)
  show ?thesis
    using mr gct reqs tree client_version_keeps(1)[OF cv] by simp
qed

text \<open>C4, amended, at a node that reports \<open>Geth/v1.10.26\<close>.\<close>

theorem get_call_tree_falls_back_witness:
  "client_version (connected_to (node_reporting ''Geth/v1.10.26'' 3 method_not_found some_trace))
     = (''Geth/v1.10.26'',
        (connected_to (node_reporting ''Geth/v1.10.26'' 3 method_not_found some_trace))
          \<lparr>p_client_version := Some ''Geth/v1.10.26''\<rparr>)
   \<and> \<not> str_in ''erigon'' (lower ''Geth/v1.10.26'')
   \<and> base_make_request
        ((connected_to (node_reporting ''Geth/v1.10.26'' 3 method_not_found some_trace))
          \<lparr>p_client_version := Some ''Geth/v1.10.26''\<rparr>)
        ''trace_transaction'' [JStr ''0xabc'']
       = Inl (ProviderError, ''the method trace_transaction does not exist/is not available'')
   \<and> str_in not_available ''the method trace_transaction does not exist/is not available''
   \<and> base_make_request
        ((connected_to (node_reporting ''Geth/v1.10.26'' 3 method_not_found some_trace))
          \<lparr>p_client_version := Some ''Geth/v1.10.26''\<rparr>)
        ''debug_traceTransaction'' (call_tracer_params ''0xabc'')
       = Inr (JObj [(''type'', JStr ''CALL'')])
   \<and> geth_tree tagging_decoders (JObj [(''type'', JStr ''CALL'')]) ''0xabc''
       = Inr (''callTracer'', JObj [(''type'', JStr ''CALL'')])
   \<and> fst (get_call_tree tagging_decoders ''0xabc''
        (connected_to (node_reporting ''Geth/v1.10.26'' 3 method_not_found some_trace)))
       = Inr (''callTracer'', JObj [(''type'', JStr ''CALL'')])
   \<and> requested (snd (get_call_tree tagging_decoders ''0xabc''
        (connected_to (node_reporting ''Geth/v1.10.26'' 3 method_not_found some_trace))))
       = [''trace_transaction'', ''debug_traceTransaction'']"
proof -
  let ?start = "connected_to (node_reporting ''Geth/v1.10.26'' 3 method_not_found some_trace)"
  let ?cached = "?start\<lparr>p_client_version := Some ''Geth/v1.10.26''\<rparr>"
  have cv: "client_version ?start = (''Geth/v1.10.26'', ?cached)"
    by (simp add: eval_defs)
  have ne: "\<not> str_in ''erigon'' (lower ''Geth/v1.10.26'')"
    by (simp add: lower_def lower_char_def)
  have un: "base_make_request ?cached ''trace_transaction'' [JStr ''0xabc'']
       = Inl (ProviderError, ''the method trace_transaction does not exist/is not available'')"
    by (simp add: eval_defs)
  have ph: "str_in not_available ''the method trace_transaction does not exist/is not available''"
    by (simp add: not_available_def)
  have tr: "base_make_request ?cached ''debug_traceTransaction'' (call_tracer_params ''0xabc'')
       = Inr (JObj [(''type'', JStr ''CALL'')])"
    by (simp add: eval_defs)
  have gt: "geth_tree tagging_decoders (JObj [(''type'', JStr ''CALL'')]) ''0xabc''
       = Inr (''callTracer'', JObj [(''type'', JStr ''CALL'')])"
    by (simp add: tagging_decoders_def)
  note fb = get_call_tree_falls_back [OF cv ne un ph, of tagging_decoders]
  have res: "fst (get_call_tree tagging_decoders ''0xabc'' ?start)
       = Inr (''callTracer'', JObj [(''type'', JStr ''CALL'')])"
    using fb tr gt by blast
  have "requests (snd (get_call_tree tagging_decoders ''0xabc'' ?start)) =
      requests ?start @ [(''trace_transaction'', [JStr ''0xabc'']),
                      (''debug_traceTransaction'', call_tracer_params ''0xabc'')]"
    using fb by blast
  then have rq: "requested (snd (get_call_tree tagging_decoders ''0xabc'' ?start))
       = [''trace_transaction'', ''debug_traceTransaction'']"
    by (simp add: requested_def connected_to_def set_web3_def new_provider_def)
  show ?thesis
    using cv ne un ph tr gt res rq by blast
qed

section \<open>Client classification: properties\<close>

text \<open>
  C6, the claim as stated fails: the version \<open>erigon/2.0-geth\<close> contains "erigon", and
  the classification leaves concurrency 16 and page size 5000, since the test for "geth"
  comes first.
\<close>

theorem classify_client_counterexample:
  "str_in ''erigon'' (lower ''erigon/2.0-geth'')
   \<and> concurrency (classify_client local_env
        (connected_to (node_reporting ''erigon/2.0-geth'' 0 some_trace some_trace))) = 16
   \<and> block_page_size (classify_client local_env
        (connected_to (node_reporting ''erigon/2.0-geth'' 0 some_trace some_trace))) = 5000"
  by (simp add: eval_defs)

text \<open>
  C6, amended. With \<open>v\<close> the client version: if \<open>v\<close> contains "erigon" and not "geth"
  (in any case), the classification sets concurrency 8 and page size 40000; if it
  contains "nethermind" and neither "geth" nor "erigon", it sets 32 and 50000; if it
  contains "geth", or none of the three names, both values stay as they were (16 and
  5000 on a new provider), and with none of the three names a warning is logged. The
  classification is a total function of the provider: no branch raises.
\<close>

theorem classify_client_tunables:
  assumes "client_version p0 = (v, p)"
  shows "(str_in ''erigon'' (lower v) \<and> \<not> str_in ''geth'' (lower v) \<longrightarrow>
            concurrency (classify_client ce p0) = 8 \<and>
            block_page_size (classify_client ce p0) = 40000)
       \<and> (str_in ''nethermind'' (lower v) \<and> \<not> str_in ''geth'' (lower v)
            \<and> \<not> str_in ''erigon'' (lower v) \<longrightarrow>
            concurrency (classify_client ce p0) = 32 \<and>
            block_page_size (classify_client ce p0) = 50000)
       \<and> (str_in ''geth'' (lower v) \<longrightarrow>
            concurrency (classify_client ce p0) = concurrency p0 \<and>
            block_page_size (classify_client ce p0) = block_page_size p0)
       \<and> (\<not> str_in ''geth'' (lower v) \<and> \<not> str_in ''erigon'' (lower v)
            \<and> \<not> str_in ''nethermind'' (lower v) \<longrightarrow>
            concurrency (classify_client ce p0) = concurrency p0 \<and>
            block_page_size (classify_client ce p0) = block_page_size p0 \<and>
            logged (classify_client ce p0) =
              logged p0 @ [(WARNING, ''Connecting Geth plugin to non-Geth client '' @ apostrophe
                                       @ split_slash_first v @ apostrophe @ ''.'')])"
  using assms client_version_keeps[OF assms]
  by (simp add: classify_client_def log_connection_def logger_def Let_def)

text \<open>C6, amended, at four version strings on a new provider.\<close>

theorem classify_client_tunables_witness:
  "(str_in ''erigon'' (lower ''Erigon/v2.40.0/linux'')
    \<and> \<not> str_in ''geth'' (lower ''Erigon/v2.40.0/linux'')
    \<and> concurrency (classify_client local_env
         (connected_to (node_reporting ''Erigon/v2.40.0/linux'' 0 some_trace some_trace))) = 8
    \<and> block_page_size (classify_client local_env
         (connected_to (node_reporting ''Erigon/v2.40.0/linux'' 0 some_trace some_trace))) = 40000)
   \<and> (str_in ''nethermind'' (lower ''Nethermind/v1.14.5'')
    \<and> \<not> str_in ''geth'' (lower ''Nethermind/v1.14.5'')
    \<and> \<not> str_in ''erigon'' (lower ''Nethermind/v1.14.5'')
    \<and> concurrency (classify_client local_env
         (connected_to (node_reporting ''Nethermind/v1.14.5'' 0 some_trace some_trace))) = 32
    \<and> block_page_size (classify_client local_env
         (connected_to (node_reporting ''Nethermind/v1.14.5'' 0 some_trace some_trace))) = 50000)
   \<and> (str_in ''geth'' (lower ''Geth/v1.10.26'')
    \<and> concurrency (classify_client local_env
         (connected_to (node_reporting ''Geth/v1.10.26'' 0 some_trace some_trace))) = 16
    \<and> block_page_size (classify_client local_env
         (connected_to (node_reporting ''Geth/v1.10.26'' 0 some_trace some_trace))) = 5000)
   \<and> (\<not> str_in ''geth'' (lower ''OpenEthereum/v3.3.5'')
    \<and> \<not> str_in ''erigon'' (lower ''OpenEthereum/v3.3.5'')
    \<and> \<not> str_in ''nethermind'' (lower ''OpenEthereum/v3.3.5'')
    \<and> concurrency (classify_client local_env
         (connected_to (node_reporting ''OpenEthereum/v3.3.5'' 0 some_trace some_trace))) = 16
    \<and> block_page_size (classify_client local_env
         (connected_to (node_reporting ''OpenEthereum/v3.3.5'' 0 some_trace some_trace))) = 5000
    \<and> logged (classify_client local_env
         (connected_to (node_reporting ''OpenEthereum/v3.3.5'' 0 some_trace some_trace)))
        = [(WARNING, ''Connecting Geth plugin to non-Geth client '' @ apostrophe
                       @ ''OpenEthereum'' @ apostrophe @ ''.'')])"
proof -
  have cv1: "client_version (connected_to (node_reporting ''Erigon/v2.40.0/linux'' 0 some_trace some_trace))
      = (''Erigon/v2.40.0/linux'', (connected_to (node_reporting ''Erigon/v2.40.0/linux'' 0 some_trace some_trace))
           \<lparr>p_client_version := Some ''Erigon/v2.40.0/linux''\<rparr>)"
    by (simp add: eval_defs)
  note t1 = classify_client_tunables [OF cv1, of local_env]
  have cv2: "client_version (connected_to (node_reporting ''Nethermind/v1.14.5'' 0 some_trace some_trace))
      = (''Nethermind/v1.14.5'', (connected_to (node_reporting ''Nethermind/v1.14.5'' 0 some_trace some_trace))
           \<lparr>p_client_version := Some ''Nethermind/v1.14.5''\<rparr>)"
    by (simp add: eval_defs)
  note t2 = classify_client_tunables [OF cv2, of local_env]
  have cv3: "client_version (connected_to (node_reporting ''Geth/v1.10.26'' 0 some_trace some_trace))
      = (''Geth/v1.10.26'', (connected_to (node_reporting ''Geth/v1.10.26'' 0 some_trace some_trace))
           \<lparr>p_client_version := Some ''Geth/v1.10.26''\<rparr>)"
    by (simp add: eval_defs)
  note t3 = classify_client_tunables [OF cv3, of local_env]
  have cv4: "client_version (connected_to (node_reporting ''OpenEthereum/v3.3.5'' 0 some_trace some_trace))
      = (''OpenEthereum/v3.3.5'', (connected_to (node_reporting ''OpenEthereum/v3.3.5'' 0 some_trace some_trace))
           \<lparr>p_client_version := Some ''OpenEthereum/v3.3.5''\<rparr>)"
    by (simp add: eval_defs)
  note t4 = classify_client_tunables [OF cv4, of local_env]
  have h1: "str_in ''erigon'' (lower ''Erigon/v2.40.0/linux'')"
    "\<not> str_in ''geth'' (lower ''Erigon/v2.40.0/linux'')"
    by (simp_all add: lower_def lower_char_def)
  have h2: "str_in ''nethermind'' (lower ''Nethermind/v1.14.5'')"
    "\<not> str_in ''geth'' (lower ''Nethermind/v1.14.5'')"
    "\<not> str_in ''erigon'' (lower ''Nethermind/v1.14.5'')"
    by (simp_all add: lower_def lower_char_def)
  have h3: "str_in ''geth'' (lower ''Geth/v1.10.26'')"
    by (simp add: lower_def lower_char_def)
  have h4: "\<not> str_in ''geth'' (lower ''OpenEthereum/v3.3.5'')"
    "\<not> str_in ''erigon'' (lower ''OpenEthereum/v3.3.5'')"
    "\<not> str_in ''nethermind'' (lower ''OpenEthereum/v3.3.5'')"
    by (simp_all add: lower_def lower_char_def)
  have fresh: "concurrency (connected_to nd) = 16" "block_page_size (connected_to nd) = 5000"
    "logged (connected_to nd) = []" for nd
    by (simp_all add: connected_to_def set_web3_def new_provider_def)
  have sp: "split_slash_first ''OpenEthereum/v3.3.5'' = ''OpenEthereum''"
    by (simp add: split_slash_first_def)
  show ?thesis
    using t1 t2 t3 t4 h1 h2 h3 h4 by (simp add: fresh sp)
qed

text \<open>
  C8. The claim: after a disconnect and a connection to another node the tunables are
  those of the new node's version string, or the defaults. On one provider object,
  connecting to a node that reports \<open>erigon/2.40.0\<close>, disconnecting, and connecting to a
  node that reports \<open>Geth/v1.10.26\<close> succeeds and leaves concurrency 8 and page size
  40000, the values for Erigon; a new provider connected to the same Geth node has 16
  and 5000.
\<close>

theorem reconnect_keeps_tunables:
  "concurrency (snd (Geth_connect local_env (node_reporting ''Geth/v1.10.26'' 0 some_trace some_trace)
      (disconnect (snd (Geth_connect local_env
         (node_reporting ''erigon/2.40.0'' 0 some_trace some_trace) new_provider))))) = 8
   \<and> block_page_size (snd (Geth_connect local_env (node_reporting ''Geth/v1.10.26'' 0 some_trace some_trace)
      (disconnect (snd (Geth_connect local_env
         (node_reporting ''erigon/2.40.0'' 0 some_trace some_trace) new_provider))))) = 40000
   \<and> fst (Geth_connect local_env (node_reporting ''Geth/v1.10.26'' 0 some_trace some_trace)
      (disconnect (snd (Geth_connect local_env
         (node_reporting ''erigon/2.40.0'' 0 some_trace some_trace) new_provider)))) = Inr ()
   \<and> concurrency (snd (Geth_connect local_env
        (node_reporting ''Geth/v1.10.26'' 0 some_trace some_trace) new_provider)) = 16
   \<and> block_page_size (snd (Geth_connect local_env
        (node_reporting ''Geth/v1.10.26'' 0 some_trace some_trace) new_provider)) = 5000"
  by (simp add: eval_defs)

section \<open>The streaming reader: properties\<close>

text \<open>The parser of records between semicolons is incremental.\<close>

lemma record_send_append:
  "record_send s (a @ b) =
     (case record_send s a of
        (r1, Inl e) \<Rightarrow> (r1, Inl e)
      | (r1, Inr s1) \<Rightarrow> (case record_send s1 b of (r2, outcome) \<Rightarrow> (r1 @ r2, outcome)))"
  by (induction s a rule: record_send.induct) (auto split: sum.splits prod.splits)

text \<open>After a turn of the loop that ends normally the list \<open>results\<close> is empty.\<close>

lemma reader_step_normal:
  "reader_step js chunk rd = (rd', None) \<Longrightarrow> results rd' = []"
  by (auto simp: reader_step_def Let_def split: prod.splits sum.splits)

lemma stream_chunks_normal:
  "stream_chunks js rd cs = (rd', None) \<Longrightarrow> results rd = [] \<Longrightarrow> results rd' = []"
proof (induction cs arbitrary: rd)
  case Nil then show ?case by simp
next
  case (Cons c cs)
  obtain rd1 out where st: "reader_step js c rd = (rd1, out)" by (cases "reader_step js c rd")
  show ?case
  proof (cases out)
    case None
    then have "results rd1 = []" using st reader_step_normal by fastforce
    with Cons st None show ?thesis by simp
  next
    case (Some e)
    with Cons.prems st show ?thesis by simp
  qed
qed

text \<open>
  With an incremental parser, feeding non-empty chunks one by one yields what the
  parser completes on their concatenation when it accepts it; when it raises, the run
  ends with that exception, and what it completed before is split between the records
  yielded and those left in \<open>results\<close>.
\<close>

lemma stream_chunks_concat:
  assumes inc: "\<And>s a b. a \<noteq> [] \<Longrightarrow> b \<noteq> [] \<Longrightarrow>
            send js s (a @ b) =
              (case send js s a of
                 (r1, Inl e) \<Rightarrow> (r1, Inl e)
               | (r1, Inr s1) \<Rightarrow> (case send js s1 b of (r2, outcome) \<Rightarrow> (r1 @ r2, outcome)))"
  shows "cs \<noteq> [] \<Longrightarrow> [] \<notin> set cs \<Longrightarrow> results rd = [] \<Longrightarrow>
     (case send js (coroutine rd) (concat cs) of
        (rs, Inl e) \<Rightarrow>
          snd (stream_chunks js rd cs) = Some e
          \<and> yielded (fst (stream_chunks js rd cs)) @ results (fst (stream_chunks js rd cs))
              = yielded rd @ rs
      | (rs, Inr co) \<Rightarrow>
          stream_chunks js rd cs = (rd\<lparr>coroutine := co, yielded := yielded rd @ rs\<rparr>, None))"
proof (induction cs arbitrary: rd)
  case Nil then show ?case by simp
next
  case (Cons c cs)
  show ?case
  proof (cases "cs = []")
    case True
    with Cons.prems show ?thesis
      by (auto simp: reader_step_def Let_def split: sum.splits prod.splits)
  next
    case False
    have c: "c \<noteq> []" using Cons.prems by auto
    have cc: "concat cs \<noteq> []" using Cons.prems False by (cases cs) auto
    note h = inc[OF c cc, of "coroutine rd"]
    obtain r1 out where sc: "send js (coroutine rd) c = (r1, out)"
      by (cases "send js (coroutine rd) c")
    show ?thesis
    proof (cases out)
      case (Inl e)
      with h sc Cons.prems(3) show ?thesis by (simp add: reader_step_def)
    next
      case (Inr s1)
      let ?rd1 = "rd\<lparr>coroutine := s1, yielded := yielded rd @ r1\<rparr>"
      have step: "reader_step js c rd = (?rd1, None)"
        using Inr sc Cons.prems(3) by (simp add: reader_step_def Let_def)
      have ih: "(case send js (coroutine ?rd1) (concat cs) of
        (rs, Inl e) \<Rightarrow>
          snd (stream_chunks js ?rd1 cs) = Some e
          \<and> yielded (fst (stream_chunks js ?rd1 cs)) @ results (fst (stream_chunks js ?rd1 cs))
              = yielded ?rd1 @ rs
      | (rs, Inr co) \<Rightarrow>
          stream_chunks js ?rd1 cs = (?rd1\<lparr>coroutine := co, yielded := yielded ?rd1 @ rs\<rparr>, None))"
        using Cons.IH[of ?rd1] False Cons.prems by simp
      show ?thesis
        using h Inr sc step ih by (auto split: sum.splits prod.splits)
    qed
  qed
qed

text \<open>
  C5, the claim as stated fails: the body \<open>ab;cd;e!f;g;\<close>, which the parser rejects at
  the exclamation mark, yields \<open>ab\<close> when it comes in the chunks \<open>ab;c\<close> and
  \<open>d;e!f;g;\<close>, and nothing when it comes in one chunk; there the records \<open>ab\<close> and \<open>cd\<close>
  stay in \<open>results\<close>, since the loop yields only after the send has returned.
\<close>

theorem stream_request_chunk_boundaries_counterexample:
  "concat [''ab;c'', ''d;e!f;g;''] = concat [''ab;cd;e!f;g;'']
   \<and> [] \<notin> set [''ab;c'', ''d;e!f;g;''] \<and> [] \<notin> set [''ab;cd;e!f;g;'']
   \<and> yielded (fst (stream_request record_parser
            (\<lambda>payload. Inr \<lparr>status_ok = True, content_chunks = [''ab;c'', ''d;e!f;g;'']\<rparr>)
            ''debug_traceTransaction'' [JStr ''0xabc''] ''result.structLogs.item''))
       = [''ab'']
   \<and> yielded (fst (stream_request record_parser
            (\<lambda>payload. Inr \<lparr>status_ok = True, content_chunks = [''ab;cd;e!f;g;'']\<rparr>)
            ''debug_traceTransaction'' [JStr ''0xabc''] ''result.structLogs.item''))
       = []
   \<and> results (fst (stream_request record_parser
            (\<lambda>payload. Inr \<lparr>status_ok = True, content_chunks = [''ab;cd;e!f;g;'']\<rparr>)
            ''debug_traceTransaction'' [JStr ''0xabc''] ''result.structLogs.item''))
       = [''ab'', ''cd'']"
  by (simp add: stream_request_def record_parser_def reader_step_def)

text \<open>
  C5, amended. Let the parser be incremental: sending \<open>a @ b\<close> is sending \<open>a\<close> and then,
  unless that raised, \<open>b\<close>, for non-empty \<open>a\<close> and \<open>b\<close>. Take one response body cut into
  non-empty chunks in two ways, \<open>cs1\<close> and \<open>cs2\<close>, each delivered with a passing status.
  Then the two runs of \<open>_stream_request\<close> end the same way (both normally, or both with
  the same exception), and the records yielded followed by those left in \<open>results\<close>
  are the same sequence in both. When the runs end normally, \<open>results\<close> is empty at the
  end, every record having been removed from it in the turn that yielded it, and both
  runs have yielded the same sequence of records and reach the same state.
\<close>

theorem stream_request_chunk_boundaries:
  assumes inc: "\<And>s a b. a \<noteq> [] \<Longrightarrow> b \<noteq> [] \<Longrightarrow>
            send js s (a @ b) =
              (case send js s a of
                 (r1, Inl e) \<Rightarrow> (r1, Inl e)
               | (r1, Inr s1) \<Rightarrow> (case send js s1 b of (r2, outcome) \<Rightarrow> (r1 @ r2, outcome)))"
    and ne1: "[] \<notin> set cs1" and ne2: "[] \<notin> set cs2"
    and same: "concat cs1 = concat cs2"
    and r1: "r1 = stream_request js (\<lambda>payload. Inr \<lparr>status_ok = True, content_chunks = cs1\<rparr>)
                    method params iter_path"
    and r2: "r2 = stream_request js (\<lambda>payload. Inr \<lparr>status_ok = True, content_chunks = cs2\<rparr>)
                    method params iter_path"
  shows "snd r1 = snd r2
       \<and> yielded (fst r1) @ results (fst r1) = yielded (fst r2) @ results (fst r2)
       \<and> (snd r1 = None \<longrightarrow>
            results (fst r1) = [] \<and> results (fst r2) = []
            \<and> yielded (fst r1) = yielded (fst r2) \<and> fst r1 = fst r2)"
proof -
  let ?rd = "fresh_reader js iter_path"
  have e1: "r1 = stream_chunks js ?rd cs1" and e2: "r2 = stream_chunks js ?rd cs2"
    using r1 r2 by (simp_all add: stream_request_def fresh_reader_def)
  have fr: "results ?rd = []" by (simp add: fresh_reader_def)
  show ?thesis
  proof (cases "cs1 = []")
    case True
    then have "concat cs2 = []" using same by simp
    then have "cs2 = []" using ne2 by (cases cs2) auto
    with True e1 e2 fr show ?thesis by simp
  next
    case False
    then have "concat cs1 \<noteq> []" using ne1 by (cases cs1) auto
    then have n2: "cs2 \<noteq> []" using same by auto
    note a = stream_chunks_concat[of js cs1 ?rd, OF inc False ne1 fr]
    note b = stream_chunks_concat[of js cs2 ?rd, OF inc n2 ne2 fr]
    obtain rs out where sc: "send js (coroutine ?rd) (concat cs1) = (rs, out)"
      by (cases "send js (coroutine ?rd) (concat cs1)")
    show ?thesis
    proof (cases out)
      case (Inl e)
      with a b sc same e1 e2 show ?thesis by simp
    next
      case (Inr co)
      with a b sc same e1 e2 fr show ?thesis by simp
    qed
  qed
qed

text \<open>C5, amended, for the body \<open>ab;cd;ef;\<close> in three chunks and in one.\<close>

theorem stream_request_chunk_boundaries_witness:
  "[] \<notin> set [''ab;c'', ''d;e'', ''f;'']
   \<and> [] \<notin> set [''ab;cd;ef;'']
   \<and> concat [''ab;c'', ''d;e'', ''f;''] = concat [''ab;cd;ef;'']
   \<and> snd (stream_request record_parser
            (\<lambda>payload. Inr \<lparr>status_ok = True, content_chunks = [''ab;c'', ''d;e'', ''f;'']\<rparr>)
            ''debug_traceTransaction'' [JStr ''0xabc''] ''result.structLogs.item'') = None
   \<and> yielded (fst (stream_request record_parser
            (\<lambda>payload. Inr \<lparr>status_ok = True, content_chunks = [''ab;c'', ''d;e'', ''f;'']\<rparr>)
            ''debug_traceTransaction'' [JStr ''0xabc''] ''result.structLogs.item''))
       = [''ab'', ''cd'', ''ef'']
   \<and> yielded (fst (stream_request record_parser
            (\<lambda>payload. Inr \<lparr>status_ok = True, content_chunks = [''ab;cd;ef;'']\<rparr>)
            ''debug_traceTransaction'' [JStr ''0xabc''] ''result.structLogs.item''))
       = [''ab'', ''cd'', ''ef'']
   \<and> results (fst (stream_request record_parser
            (\<lambda>payload. Inr \<lparr>status_ok = True, content_chunks = [''ab;cd;ef;'']\<rparr>)
            ''debug_traceTransaction'' [JStr ''0xabc''] ''result.structLogs.item'')) = []"
proof -
  have sp: "send record_parser = record_send"
    by (simp add: record_parser_def)
  have inc: "send record_parser s (a @ b) =
      (case send record_parser s a of
         (r1, Inl e) \<Rightarrow> (r1, Inl e)
       | (r1, Inr s1) \<Rightarrow>
           (case send record_parser s1 b of (r2, outcome) \<Rightarrow> (r1 @ r2, outcome)))" for s a b
    unfolding sp by (rule record_send_append)
  have ne: "[] \<notin> set [''ab;c'', ''d;e'', ''f;'']" "[] \<notin> set [''ab;cd;ef;'']" by simp_all
  have same: "concat [''ab;c'', ''d;e'', ''f;''] = concat [''ab;cd;ef;'']" by simp
  have one: "stream_request record_parser
            (\<lambda>payload. Inr \<lparr>status_ok = True, content_chunks = [''ab;c'', ''d;e'', ''f;'']\<rparr>)
            ''debug_traceTransaction'' [JStr ''0xabc''] ''result.structLogs.item''
        = (\<lparr>coroutine = [], results = [], yielded = [''ab'', ''cd'', ''ef'']\<rparr>, None)"
    by (simp add: stream_request_def record_parser_def reader_step_def)
  note t = stream_request_chunk_boundaries [OF inc ne same refl refl,
      of "''debug_traceTransaction''" "[JStr ''0xabc'']" "''result.structLogs.item''"]
  show ?thesis
    using t one ne same by simp
qed

section \<open>The development node process: properties\<close>

text \<open>
  C7. When the host of the URI is neither \<open>localhost\<close> nor \<open>127.0.0.1\<close>, \<open>from_uri\<close>
  raises the connection error before the constructor is called: the world is returned
  as it was, with no directory created and no process started.
\<close>

theorem from_uri_non_local_refused:
  assumes "uri_host parsed \<notin> {Some ''localhost'', Some ''127.0.0.1''}"
  shows "from_uri ev parsed data_folder kwargs w =
           (Inl (ConnectionError,
                 ''Unable to start Geth on non-local host ''
                   @ (case uri_host parsed of None \<Rightarrow> ''None'' | Some h \<Rightarrow> h) @ ''.''), w)"
  using assms by (simp add: from_uri_def)

text \<open>C7, for the host \<open>example.com\<close>.\<close>

theorem from_uri_non_local_refused_witness:
  "uri_host \<lparr>uri_host = Some ''example.com'', uri_port = Some 8545\<rparr>
     \<notin> {Some ''localhost'', Some ''127.0.0.1''}
   \<and> from_uri dev_env \<lparr>uri_host = Some ''example.com'', uri_port = Some 8545\<rparr>
        [''home'', ''dev''] no_kwargs empty_world
       = (Inl (ConnectionError, ''Unable to start Geth on non-local host example.com.''),
          empty_world)
   \<and> dirs empty_world = [] \<and> spawned empty_world = []"
  using from_uri_non_local_refused
    [of "\<lparr>uri_host = Some ''example.com'', uri_port = Some 8545\<rparr>" dev_env
        "[''home'', ''dev'']" no_kwargs empty_world]
  by (simp add: empty_world_def)

text \<open>For comparison, the same call for \<open>localhost\<close> creates the data directory.\<close>

lemma from_uri_local_starts:
  "dirs (snd (from_uri dev_env \<lparr>uri_host = Some ''localhost'', uri_port = None\<rparr>
        [''home'', ''dev''] no_kwargs empty_world))
     = [[''home''], [''home'', ''dev''], [''home'', ''dev'', ''geth-logs'']]"
  by (simp add: from_uri_def GethDevProcess_init_def dev_env_def empty_world_def no_kwargs_def
      mkdir_parents_def clean_def Let_def upt_rec)

text \<open>
  An exception of \<open>BaseGethProcess.__init__\<close> comes after the directories are made and
  the chain is initialised.
\<close>

lemma init_raises_after_chain:
  "GethDevProcess_init (dev_env\<lparr>base_process_init := (\<lambda>kw. Some (ValueError, ''bad executable''))\<rparr>)
      [''home'', ''dev''] ''localhost'' 8545 ''m'' 0 1337 (BalanceInt 1) (Some ''not-geth'')
      empty_world
     = (Inl (ValueError, ''bad executable''),
        \<lparr>dirs = [[''home''], [''home'', ''dev''], [''home'', ''dev'', ''geth-logs'']],
          chain_inits =
            [(genesis_data 1337 (replace_0x sealer_account) [] (BalanceInt 1),
              \<lparr>kw_data_dir = [''home'', ''dev''], kw_geth_executable = Some ''not-geth'',
                kw_rpc_addr = ''localhost'', kw_rpc_port = 8545, kw_network_id = 1337,
                kw_miner_etherbase = Some (replace_0x sealer_account)\<rparr>)],
          spawned = []\<rparr>)"
  by (simp add: GethDevProcess_init_def dev_env_def empty_world_def
      mkdir_parents_def clean_def Let_def upt_rec)

text \<open>Removing \<open>0x\<close> from an address of hexadecimal digits with the prefix.\<close>

lemma replace_0x_without_x: "CHR ''x'' \<notin> set s \<Longrightarrow> replace_0x s = s"
  by (induction s rule: replace_0x.induct) auto

lemma replace_0x_prefixed: "CHR ''x'' \<notin> set s \<Longrightarrow> replace_0x (''0x'' @ s) = s"
  by (cases s) (simp_all add: replace_0x_without_x)

text \<open>The \<open>extraData\<close> field of the genesis dictionary.\<close>

lemma genesis_data_extraData:
  "g_extraData (genesis_data chain_id sealer accounts bal) =
     ''0x'' @ replicate 64 (CHR ''0'') @ sealer @ replicate 130 (CHR ''0'')"
  unfolding genesis_data_def by (rule genesis.select_convs)

text \<open>
  C3, the claim as stated fails: for a sealer account of 20 bytes the \<open>extraData\<close>
  text is \<open>0x\<close> and 234 hexadecimal digits, which is 117 bytes (32 + 20 + 65), not 66.
\<close>

theorem genesis_extra_data_counterexample:
  "g_extraData (fst (last (chain_inits (snd (from_uri dev_env
       \<lparr>uri_host = Some ''localhost'', uri_port = None\<rparr> [''home'', ''dev''] no_kwargs
       empty_world)))))
     = ''0x'' @ replicate 64 (CHR ''0'') @ ''1e59ce931b4cfea3fe4b875411e280e173cb7a9c''
         @ replicate 130 (CHR ''0'')
   \<and> length (g_extraData (fst (last (chain_inits (snd (from_uri dev_env
       \<lparr>uri_host = Some ''localhost'', uri_port = None\<rparr> [''home'', ''dev''] no_kwargs
       empty_world)))))) = 2 + 2 * (32 + 20 + 65)
   \<and> length (g_extraData (fst (last (chain_inits (snd (from_uri dev_env
       \<lparr>uri_host = Some ''localhost'', uri_port = None\<rparr> [''home'', ''dev''] no_kwargs
       empty_world)))))) \<noteq> 2 + 2 * 66"
  by (simp add: from_uri_def GethDevProcess_init_def dev_env_def empty_world_def no_kwargs_def
      genesis_data_def sealer_account_def Let_def)

text \<open>
  C3, amended. When \<open>__init__\<close> returns a process, \<open>ensure_account_exists\<close> has
  returned an account, and with \<open>sealer\<close> that account without its \<open>0x\<close>:
  \<open>initialize_chain\<close> has been called once, with the keyword arguments the process
  keeps and a genesis dictionary whose \<open>extraData\<close> is \<open>0x\<close>, 64 zero digits (32
  bytes), \<open>sealer\<close>, and 130 zero digits (65 bytes); \<open>sealer\<close> is the
  \<open>miner_etherbase\<close> of those keyword arguments. The length is that of \<open>sealer\<close> plus
  196 characters (117 bytes after \<open>0x\<close> for a 20-byte account).
\<close>

theorem genesis_extra_data_embeds_sealer:
  assumes "GethDevProcess_init ev dd host prt mnemonic n chain_id bal exe w = (Inr gp, w')"
  shows "\<exists>account ds g.
           ensure_account_exists ev
               \<lparr>kw_data_dir = dd, kw_geth_executable = exe, kw_rpc_addr = host,
                kw_rpc_port = prt, kw_network_id = chain_id, kw_miner_etherbase = None\<rparr>
               (clean dd (mkdir_parents dd (dirs w)))
             = (Inr account, ds)
           \<and> kw_miner_etherbase (geth_kwargs gp) = Some (replace_0x account)
           \<and> chain_inits w' = chain_inits w @ [(g, geth_kwargs gp)]
           \<and> g_extraData g =
               ''0x'' @ replicate 64 (CHR ''0'') @ replace_0x account @ replicate 130 (CHR ''0'')
           \<and> length (g_extraData g) = 2 + 2 * 32 + length (replace_0x account) + 2 * 65"
proof -
  let ?bare = "\<lparr>kw_data_dir = dd, kw_geth_executable = exe, kw_rpc_addr = host,
                kw_rpc_port = prt, kw_network_id = chain_id, kw_miner_etherbase = None\<rparr>"
  obtain acc ds where
    ea: "ensure_account_exists ev ?bare (clean dd (mkdir_parents dd (dirs w))) = (acc, ds)"
    by (cases "ensure_account_exists ev ?bare (clean dd (mkdir_parents dd (dirs w)))")
  have wg: "which_geth ev"
    using assms by (auto simp: GethDevProcess_init_def split: if_splits)
  obtain account where acc: "acc = Inr account"
    using assms wg ea by (cases acc) (auto simp: GethDevProcess_init_def Let_def)
  let ?sealer = "replace_0x account"
  let ?full = "?bare\<lparr>kw_miner_etherbase := Some ?sealer\<rparr>"
  obtain accounts where ga: "generate_dev_accounts ev mnemonic n = Inr accounts"
    using assms wg ea acc
    by (cases "generate_dev_accounts ev mnemonic n") (auto simp: GethDevProcess_init_def Let_def)
  let ?g = "genesis_data chain_id ?sealer accounts bal"
  obtain out ds4 where ic: "initialize_chain ev ?g ?full ds = (out, ds4)"
    by (cases "initialize_chain ev ?g ?full ds")
  have res: "geth_kwargs gp = ?full \<and> chain_inits w' = chain_inits w @ [(?g, ?full)]"
    using assms wg ea acc ga ic
    by (auto simp: GethDevProcess_init_def Let_def split: option.splits)
  have len: "length (g_extraData ?g) = 2 + 2 * 32 + length ?sealer + 2 * 65"
    unfolding genesis_data_extraData by simp
  have "ensure_account_exists ev ?bare (clean dd (mkdir_parents dd (dirs w))) = (Inr account, ds)
           \<and> kw_miner_etherbase (geth_kwargs gp) = Some ?sealer
           \<and> chain_inits w' = chain_inits w @ [(?g, geth_kwargs gp)]
           \<and> g_extraData ?g =
               ''0x'' @ replicate 64 (CHR ''0'') @ ?sealer @ replicate 130 (CHR ''0'')
           \<and> length (g_extraData ?g) = 2 + 2 * 32 + length ?sealer + 2 * 65"
    using ea acc res len genesis_data_extraData [of chain_id ?sealer accounts bal] by simp
  then show ?thesis by blast
qed

text \<open>C3, amended, in surroundings where every outside function succeeds.\<close>

theorem genesis_extra_data_embeds_sealer_witness:
  "\<exists>gp w'.
     GethDevProcess_init dev_env [''home'', ''dev''] ''localhost'' 8545 ''m'' 2 1337
         (BalanceInt 1) None empty_world = (Inr gp, w')
     \<and> ensure_account_exists dev_env
           \<lparr>kw_data_dir = [''home'', ''dev''], kw_geth_executable = None,
            kw_rpc_addr = ''localhost'', kw_rpc_port = 8545, kw_network_id = 1337,
            kw_miner_etherbase = None\<rparr>
           (clean [''home'', ''dev''] (mkdir_parents [''home'', ''dev''] (dirs empty_world)))
         = (Inr sealer_account, [[''home''], [''home'', ''dev'']])
     \<and> replace_0x sealer_account = ''1e59ce931b4cfea3fe4b875411e280e173cb7a9c''
     \<and> kw_miner_etherbase (geth_kwargs gp) = Some ''1e59ce931b4cfea3fe4b875411e280e173cb7a9c''
     \<and> (\<exists>g. chain_inits w' = [(g, geth_kwargs gp)]
           \<and> g_extraData g =
               ''0x'' @ replicate 64 (CHR ''0'') @ ''1e59ce931b4cfea3fe4b875411e280e173cb7a9c''
                 @ replicate 130 (CHR ''0''))"
proof -
  obtain gp w' where r:
    "GethDevProcess_init dev_env [''home'', ''dev''] ''localhost'' 8545 ''m'' 2 1337
         (BalanceInt 1) None empty_world = (Inr gp, w')"
    by (simp add: GethDevProcess_init_def dev_env_def Let_def)
  have ea: "ensure_account_exists dev_env
           \<lparr>kw_data_dir = [''home'', ''dev''], kw_geth_executable = None,
            kw_rpc_addr = ''localhost'', kw_rpc_port = 8545, kw_network_id = 1337,
            kw_miner_etherbase = None\<rparr>
           (clean [''home'', ''dev''] (mkdir_parents [''home'', ''dev''] (dirs empty_world)))
         = (Inr sealer_account, [[''home''], [''home'', ''dev'']])"
    by (simp add: dev_env_def empty_world_def mkdir_parents_def clean_def upt_rec)
  have rs: "replace_0x sealer_account = ''1e59ce931b4cfea3fe4b875411e280e173cb7a9c''"
    by (simp add: sealer_account_def)
  have ci: "chain_inits empty_world = []" by (simp add: empty_world_def)
  from genesis_extra_data_embeds_sealer [OF r] obtain account ds g where
    t: "ensure_account_exists dev_env
           \<lparr>kw_data_dir = [''home'', ''dev''], kw_geth_executable = None,
            kw_rpc_addr = ''localhost'', kw_rpc_port = 8545, kw_network_id = 1337,
            kw_miner_etherbase = None\<rparr>
           (clean [''home'', ''dev''] (mkdir_parents [''home'', ''dev''] (dirs empty_world)))
         = (Inr account, ds)"
      "kw_miner_etherbase (geth_kwargs gp) = Some (replace_0x account)"
      "chain_inits w' = chain_inits empty_world @ [(g, geth_kwargs gp)]"
      "g_extraData g =
         ''0x'' @ replicate 64 (CHR ''0'') @ replace_0x account @ replicate 130 (CHR ''0'')"
    by blast
  have a: "account = sealer_account" using t(1) ea by simp
  have "kw_miner_etherbase (geth_kwargs gp) = Some ''1e59ce931b4cfea3fe4b875411e280e173cb7a9c''"
    using t(2) a rs by simp
  moreover have "chain_inits w' = [(g, geth_kwargs gp)]" using t(3) ci by simp
  moreover have "g_extraData g =
       ''0x'' @ replicate 64 (CHR ''0'') @ ''1e59ce931b4cfea3fe4b875411e280e173cb7a9c''
         @ replicate 130 (CHR ''0'')"
    using t(4) a rs by (simp only:)
  ultimately show ?thesis using r ea rs by blast
qed

end
